theory Spec2Isabelle
  imports Main
begin

section \<open>ManyToManyColumn of django-tables2\<close>

text \<open>
  The development embeds \<^verbatim>\<open>django_tables2/columns/manytomanycolumn.py\<close>: the class
  \<^verbatim>\<open>ManyToManyColumn\<close> with its constructor, its two hooks \<^verbatim>\<open>transform\<close> and
  \<^verbatim>\<open>filter\<close>, \<^verbatim>\<open>render\<close> and the class method \<^verbatim>\<open>from_field\<close>.
  A call that may raise returns a sum: \<open>Inl e\<close> is the exception \<open>e\<close>, \<open>Inr v\<close> the value.
  The interpreter is Python 3, where \<^verbatim>\<open>map\<close> is lazy.
\<close>

subsection \<open>Exceptions\<close>

text \<open>
  The exceptions that the column meets. \<^verbatim>\<open>StopIteration\<close> is apart because an iterator
  that lets it out is at its end for whoever consumes it; \<^verbatim>\<open>IndexError\<close> is what
  indexing raises; \<open>Raised e\<close> is any other exception.
\<close>

datatype 'e pyexception = StopIteration | IndexError | Raised 'e

subsection \<open>Text and the markup-safety functions of Django\<close>

text \<open>
  Python text as the column sees it: an ordinary \<^verbatim>\<open>str\<close>, or a \<^verbatim>\<open>SafeText\<close>, the
  \<^verbatim>\<open>str\<close> subclass that carries \<^verbatim>\<open>__html__\<close> and that templates do not escape again.
  \<open>has_html\<close> is \<^verbatim>\<open>hasattr(text, '__html__')\<close>.
\<close>

datatype pytext = Str (chars: string) | has_html: SafeText (chars: string)

text \<open>
  \<^verbatim>\<open>str.replace(old, new)\<close> for a one-character \<^verbatim>\<open>old\<close>.
\<close>

definition replace :: "char \<Rightarrow> string \<Rightarrow> string \<Rightarrow> string" where
  "replace old new s = concat (map (\<lambda>c. if c = old then new else [c]) s)"

text \<open>
  \<^verbatim>\<open>django.utils.safestring.mark_safe\<close>: a value with \<^verbatim>\<open>__html__\<close> is returned as it is,
  a \<^verbatim>\<open>str\<close> is wrapped into \<^verbatim>\<open>SafeText\<close>.
\<close>

fun mark_safe :: "pytext \<Rightarrow> pytext" where
  "mark_safe (SafeText s) = SafeText s"
| "mark_safe (Str s) = SafeText s"

text \<open>
  \<^verbatim>\<open>django.utils.html.escape\<close> (Django 1.x, the series that has \<^verbatim>\<open>force_text\<close> and
  supports \<^verbatim>\<open>from __future__ import unicode_literals\<close>):
  \<^verbatim>\<open>mark_safe(force_text(text).replace('&', '&amp;').replace('<', '&lt;')
      .replace('>', '&gt;').replace('"', '&quot;').replace("'", '&#39;'))\<close>
\<close>

definition escape :: "string \<Rightarrow> pytext" where
  "escape s =
     mark_safe (Str (replace (CHR 0x27) ''&#39;'' (replace (CHR 0x22) ''&quot;''
       (replace CHR ''>'' ''&gt;'' (replace CHR ''<'' ''&lt;''
         (replace CHR ''&'' ''&amp;'' s))))))"

text \<open>
  \<^verbatim>\<open>django.utils.html.conditional_escape\<close>: a value that has \<^verbatim>\<open>__html__\<close> is returned
  as it is, any other one goes through \<^verbatim>\<open>escape\<close>.
\<close>

fun conditional_escape :: "pytext \<Rightarrow> pytext" where
  "conditional_escape (SafeText s) = SafeText s"
| "conditional_escape (Str s) = escape s"

text \<open>
  The entity that stands for a character in escaped text, and the character itself
  where it has none: the character-wise reading of \<open>escape\<close>, used to state what the
  chain of replacements achieves.
\<close>

definition html_entity :: "char \<Rightarrow> string" where
  "html_entity c =
     (if c = CHR ''&'' then ''&amp;''
      else if c = CHR ''<'' then ''&lt;''
      else if c = CHR ''>'' then ''&gt;''
      else if c = CHR 0x22 then ''&quot;''
      else if c = CHR 0x27 then ''&#39;''
      else [c])"

text \<open>
  \<^verbatim>\<open>sep.join(items)\<close>. \<^verbatim>\<open>SafeText\<close> does not override \<^verbatim>\<open>join\<close>, so the result is an
  ordinary \<^verbatim>\<open>str\<close> whatever the separator and the items are.
\<close>

fun join_chars :: "string \<Rightarrow> string list \<Rightarrow> string" where
  "join_chars sep [] = []"
| "join_chars sep [x] = x"
| "join_chars sep (x # y # ys) = x @ sep @ join_chars sep (y # ys)"

definition join :: "pytext \<Rightarrow> pytext list \<Rightarrow> pytext" where
  "join sep items = Str (join_chars (chars sep) (map chars items))"

subsection \<open>The relation accessor\<close>

text \<open>
  The \<^verbatim>\<open>ManyRelatedManager\<close> handed to \<^verbatim>\<open>render\<close>: the related records, in the order
  in which \<^verbatim>\<open>all()\<close> yields them. \<^verbatim>\<open>exists()\<close> tells whether there is any.
\<close>

datatype 'r manager = Manager (qs_all: "'r list")

definition qs_exists :: "'r manager \<Rightarrow> bool" where
  "qs_exists qs = (qs_all qs \<noteq> [])"

subsection \<open>The column\<close>

text \<open>
  A \<^verbatim>\<open>str\<close> as the list of its code points, for the place where the characters
  themselves matter.
\<close>

type_synonym unicode = "nat list"

text \<open>Values of keyword options.\<close>

datatype pyval = PyNone | PyBool bool | PyInt int | PyStr unicode

text \<open>
  An instance. \<open>transform_attr\<close> and \<open>filter_attr\<close> are the instance attributes that
  \<^verbatim>\<open>__init__\<close> sets only when the caller gives a hook; \<open>args\<close> and \<open>kwargs\<close> are what
  \<^verbatim>\<open>__init__\<close> forwards to \<^verbatim>\<open>Column.__init__\<close>.
\<close>

record ('r, 'e) column =
  transform_attr :: "('r \<Rightarrow> 'e pyexception + pytext) option"
  filter_attr :: "('r manager \<Rightarrow> 'e pyexception + 'r list) option"
  separator :: pytext
  args :: "pyval list"
  kwargs :: "string \<rightharpoonup> pyval"

text \<open>\<^verbatim>\<open>dict.setdefault(key, default)\<close>, for the dictionary it leaves behind.\<close>

definition setdefault :: "('k \<rightharpoonup> 'v) \<Rightarrow> 'k \<Rightarrow> 'v \<Rightarrow> ('k \<rightharpoonup> 'v)" where
  "setdefault d key dflt = (case d key of None \<Rightarrow> d(key \<mapsto> dflt) | Some v \<Rightarrow> d)"

text \<open>
  \<^verbatim>\<open>ManyToManyColumn.__init__(self, transform=None, filter=None, separator=', ',
  *args, **kwargs)\<close>. \<open>None\<close> for a hook is Python's \<^verbatim>\<open>None\<close>.
\<close>

definition default_separator :: pytext where
  "default_separator = Str '', ''"

definition init ::
  "('r \<Rightarrow> 'e pyexception + pytext) option \<Rightarrow> ('r manager \<Rightarrow> 'e pyexception + 'r list) option \<Rightarrow> pytext \<Rightarrow>
   pyval list \<Rightarrow> (string \<rightharpoonup> pyval) \<Rightarrow> ('r, 'e) column" where
  "init transform' filter' sep as kw =
     \<lparr> transform_attr = transform', filter_attr = filter', separator = sep,
       args = as, kwargs = setdefault kw ''orderable'' (PyBool False) \<rparr>"

text \<open>
  Modelled from the spec: \<^verbatim>\<open>Column.__init__\<close> of \<^verbatim>\<open>columns/base.py\<close> is not among the
  sources. The base type offers configuration slots (\<^verbatim>\<open>orderable\<close>, \<^verbatim>\<open>verbose_name\<close>, ...)
  that hold the options it is constructed with; a slot is read as the keyword option of
  its name, \<open>None\<close> when the option was not passed by keyword.
\<close>

definition orderable :: "('r, 'e) column \<Rightarrow> pyval option" where
  "orderable self = kwargs self ''orderable''"

text \<open>
  Modelled from the spec: the \<^verbatim>\<open>verbose_name\<close> slot of the base type, read like
  \<open>orderable\<close>.
\<close>

definition verbose_name :: "('r, 'e) column \<Rightarrow> pyval option" where
  "verbose_name self = kwargs self ''verbose_name''"

text \<open>
  The methods of the class. \<^verbatim>\<open>force_text\<close> of \<^verbatim>\<open>django.utils.encoding\<close> coerces a record
  to text through its string conversion; it is a parameter, records being abstract.
\<close>

definition transform :: "('r \<Rightarrow> 'e pyexception + pytext) \<Rightarrow> 'r \<Rightarrow> 'e pyexception + pytext" where
  "transform force_text obj = force_text obj"

definition filter_method :: "'r manager \<Rightarrow> 'e pyexception + 'r list" where
  "filter_method qs = Inr (qs_all qs)"

text \<open>
  \<^verbatim>\<open>self.transform\<close> and \<^verbatim>\<open>self.filter\<close>: the instance attribute when there is one,
  the method of the class otherwise.
\<close>

definition self_transform :: "('r \<Rightarrow> 'e pyexception + pytext) \<Rightarrow> ('r, 'e) column \<Rightarrow> 'r \<Rightarrow> 'e pyexception + pytext" where
  "self_transform force_text self =
     (case transform_attr self of Some t \<Rightarrow> t | None \<Rightarrow> transform force_text)"

definition self_filter :: "('r, 'e) column \<Rightarrow> 'r manager \<Rightarrow> 'e pyexception + 'r list" where
  "self_filter self =
     (case filter_attr self of Some f \<Rightarrow> f | None \<Rightarrow> filter_method)"

text \<open>
  What \<^verbatim>\<open>join\<close> gets out of the lazy \<^verbatim>\<open>map(f, items)\<close> for an \<open>f\<close> that may raise. The
  items are taken from the left, \<open>f\<close> is called on one when \<^verbatim>\<open>join\<close> asks for the next.
  A \<^verbatim>\<open>StopIteration\<close> that \<open>f\<close> raises leaves \<^verbatim>\<open>map.__next__\<close> like the one of an
  exhausted iterator: the iteration ends there with the results so far. Any other
  exception ends it too and is the outcome.
\<close>

fun map_raising :: "('a \<Rightarrow> 'e pyexception + 'b) \<Rightarrow> 'a list \<Rightarrow> 'e pyexception + 'b list" where
  "map_raising f [] = Inr []"
| "map_raising f (x # xs) =
     (case f x of
        Inl StopIteration \<Rightarrow> Inr []
      | Inl e \<Rightarrow> Inl e
      | Inr y \<Rightarrow> (case map_raising f xs of Inl e \<Rightarrow> Inl e | Inr ys \<Rightarrow> Inr (y # ys)))"

text \<open>
  \<^verbatim>\<open>render(self, value)\<close>:
  \<^verbatim>\<open>if not value.exists(): return '-'\<close>, then
  \<^verbatim>\<open>mark_safe(conditional_escape(self.separator).join(
      map(conditional_escape, map(self.transform, self.filter(value)))))\<close>.
\<close>

definition render ::
  "('r \<Rightarrow> 'e pyexception + pytext) \<Rightarrow> ('r, 'e) column \<Rightarrow> 'r manager \<Rightarrow> 'e pyexception + pytext" where
  "render force_text self val =
     (if \<not> qs_exists val then Inr (Str ''-'')
      else
        (case self_filter self val of
           Inl e \<Rightarrow> Inl e
         | Inr records \<Rightarrow>
             (case map_raising (self_transform force_text self) records of
                Inl e \<Rightarrow> Inl e
              | Inr texts \<Rightarrow>
                  Inr (mark_safe (join (conditional_escape (separator self))
                                       (map conditional_escape texts))))))"

subsection \<open>Detection of many-to-many fields\<close>

text \<open>
  A field descriptor: \<open>ManyToManyField\<close> is an instance of \<^verbatim>\<open>models.ManyToManyField\<close>,
  \<open>OtherField\<close> any other one; both carry \<^verbatim>\<open>field.verbose_name\<close>.
  \<open>is_ManyToManyField\<close> is \<^verbatim>\<open>isinstance(field, models.ManyToManyField)\<close>.
\<close>

datatype field =
    is_ManyToManyField: ManyToManyField (field_verbose_name: unicode)
  | OtherField (field_verbose_name: unicode)

text \<open>
  Modelled from the spec: \<^verbatim>\<open>ucfirst\<close> of \<^verbatim>\<open>django_tables2/utils.py\<close> is not among the
  sources. It gives the label with its first character upper-cased,
  \<^verbatim>\<open>s[0].upper() + s[1:]\<close>: the rest of the label is kept, and indexing a label that
  has no character raises \<^verbatim>\<open>IndexError\<close>. \<open>upper\<close> is \<^verbatim>\<open>str.upper\<close> of Python on a
  string of one character, whose result may have several; it is a parameter.
\<close>

fun ucfirst :: "(nat \<Rightarrow> unicode) \<Rightarrow> unicode \<Rightarrow> 'e pyexception + unicode" where
  "ucfirst upper [] = Inl IndexError"
| "ucfirst upper (c # cs) = Inr (upper c @ cs)"

text \<open>
  \<^verbatim>\<open>from_field(cls, field)\<close>, for \<^verbatim>\<open>cls\<close> the class itself:
  \<^verbatim>\<open>cls(verbose_name=ucfirst(field.verbose_name))\<close> for a many-to-many field; otherwise
  the body ends and Python returns \<^verbatim>\<open>None\<close>.
\<close>

definition from_field ::
  "(nat \<Rightarrow> unicode) \<Rightarrow> field \<Rightarrow> 'e pyexception + ('r, 'e) column option" where
  "from_field upper fld =
     (case fld of
        ManyToManyField label \<Rightarrow>
          (case ucfirst upper label of
             Inl e \<Rightarrow> Inl e
           | Inr name \<Rightarrow>
               Inr (Some (init None None default_separator [] [''verbose_name'' \<mapsto> PyStr name])))
      | OtherField label \<Rightarrow> Inr None)"

section \<open>Properties\<close>

subsection \<open>Auxiliary facts\<close>

text \<open>The iteration over the records: all hooks return, or the first one that raises decides.\<close>

lemma map_raising_all_return:
  "\<forall>x\<in>set xs. f x = Inr (g x) \<Longrightarrow> map_raising f xs = Inr (map g xs)"
  by (induction xs) simp_all

lemma map_raising_first_raise:
  "\<forall>x\<in>set pre. f x = Inr (g x) \<Longrightarrow> f x = Inl e \<Longrightarrow> e \<noteq> StopIteration \<Longrightarrow>
   map_raising f (pre @ x # post) = Inl e"
  by (induction pre) (simp_all split: pyexception.splits)

lemma map_raising_stop_iteration:
  "\<forall>x\<in>set pre. f x = Inr (g x) \<Longrightarrow> f x = Inl StopIteration \<Longrightarrow>
   map_raising f (pre @ x # post) = Inr (map g pre)"
  by (induction pre) simp_all

lemma first_raise_split:
  "\<exists>x\<in>set xs. isl (f x) \<Longrightarrow>
   \<exists>pre x post. xs = pre @ x # post \<and> isl (f x) \<and> (\<forall>y\<in>set pre. \<not> isl (f y))"
  using split_list_first_prop [of xs "\<lambda>x. isl (f x)"] by blast

lemma mem_replace_iff:
  "c \<notin> set new \<Longrightarrow> c \<in> set (replace old new s) \<longleftrightarrow> c \<in> set s \<and> c \<noteq> old"
  by (induction s) (auto simp: replace_def)

lemma replace_Nil: "replace old new [] = []"
  by (simp add: replace_def)

lemma replace_append: "replace old new (xs @ ys) = replace old new xs @ replace old new ys"
  by (simp add: replace_def)

lemma replace_Cons: "replace old new (c # s) = (if c = old then new else [c]) @ replace old new s"
  by (simp add: replace_def)

lemma escape_per_char: "chars (escape s) = concat (map html_entity s)"
proof (induction s)
  case Nil
  show ?case by (simp add: escape_def replace_Nil)
next
  case (Cons c s)
  have "chars (escape (c # s)) = html_entity c @ chars (escape s)"
    by (simp add: escape_def replace_Cons replace_append replace_Nil html_entity_def)
  with Cons show ?case by simp
qed

lemma html_entity_no_markup:
  "set (html_entity c) \<inter> {CHR ''<'', CHR ''>'', CHR 0x22, CHR 0x27} = {}"
  by (simp add: html_entity_def)

lemma escape_no_markup:
  "set (chars (escape s)) \<inter> {CHR ''<'', CHR ''>'', CHR 0x22, CHR 0x27} = {}"
  unfolding escape_per_char using html_entity_no_markup by (induction s) auto

lemma set_join_chars: "set (join_chars sep xs) \<subseteq> set sep \<union> (\<Union>x\<in>set xs. set x)"
  by (induction sep xs rule: join_chars.induct) auto

text \<open>What \<open>conditional_escape\<close> does to text of either kind, and to a joined string.\<close>

lemma join_chars_avoids:
  assumes "set sep \<inter> M = {}" and "\<forall>x\<in>set xs. set x \<inter> M = {}"
  shows "set (join_chars sep xs) \<inter> M = {}"
  using assms by (induction sep xs rule: join_chars.induct) auto

lemma conditional_escape_has_html: "has_html x \<Longrightarrow> conditional_escape x = x"
  by (cases x) simp_all

lemma conditional_escape_ordinary:
  "\<not> has_html x \<Longrightarrow> chars (conditional_escape x) = concat (map html_entity (chars x))"
  by (cases x) (simp_all add: escape_per_char)

lemma conditional_escape_no_markup:
  "\<not> has_html x \<Longrightarrow>
   set (chars (conditional_escape x)) \<inter> {CHR ''<'', CHR ''>'', CHR 0x22, CHR 0x27} = {}"
  using escape_no_markup by (cases x) simp_all

text \<open>The two ways out of \<open>render\<close> behind the emptiness test.\<close>

lemma render_unfold:
  assumes "qs_exists val"
    and "self_filter self val = Inr records"
    and "map_raising (self_transform force_text self) records = Inr texts"
  shows "render force_text self val =
           Inr (SafeText (join_chars (chars (conditional_escape (separator self)))
                            (map (\<lambda>x. chars (conditional_escape x)) texts)))"
  using assms by (simp add: render_def join_def comp_def)

lemma render_raises:
  assumes "qs_exists val"
    and "self_filter self val = Inr records"
    and "map_raising (self_transform force_text self) records = Inl e"
  shows "render force_text self val = Inl e"
  using assms by (simp add: render_def)

subsection \<open>The empty relation\<close>

text \<open>
  C2. When the emptiness test of the accessor reports no records, \<open>render\<close> returns the
  ordinary string \<^verbatim>\<open>"-"\<close>: nothing is escaped, the result is not a \<^verbatim>\<open>SafeText\<close>, and
  neither hook is called, so no exception can come out of them.
\<close>

theorem render_empty_placeholder:
  "\<not> qs_exists val \<Longrightarrow> render force_text self val = Inr (Str ''-'')"
  by (simp add: render_def)

theorem render_empty_placeholder_witness:
  "\<not> qs_exists (Manager ([] :: string list)) \<and>
   render (Inr \<circ> Str)
     (init None None default_separator [] Map.empty :: (string, unit) column)
     (Manager []) = Inr (Str ''-'')"
  using render_empty_placeholder
    [of "Manager ([] :: string list)" "Inr \<circ> Str"
        "init None None default_separator [] Map.empty :: (string, unit) column"]
  by (simp add: qs_exists_def)

subsection \<open>The non-empty relation\<close>

text \<open>
  C1, as stated, fails: the text of a transform that is marked safe is not escaped. The
  cell holds it as it is, where its escaped text would be another one.
\<close>

theorem render_safe_item_counterexample:
  "render (Inr \<circ> Str)
     (init (Some (Inr \<circ> SafeText)) None default_separator [] Map.empty :: (string, unit) column)
     (Manager [''<i>x</i>'', ''y'']) = Inr (SafeText ''<i>x</i>, y'') \<and>
   escape ''<i>x</i>'' = SafeText ''&lt;i&gt;x&lt;/i&gt;''"
  by (simp add: render_def qs_exists_def init_def self_filter_def filter_method_def
      self_transform_def join_def default_separator_def escape_def replace_def)

text \<open>
  C1, amended. Take a column constructed with or without a transform and a filter, and
  an accessor that has records. When the filter of the column yields \<open>records\<close> and its
  transform yields the text \<open>t r\<close> for each of them, \<open>render\<close> returns a \<^verbatim>\<open>SafeText\<close>:
  the texts of the records, in the order in which the filter yields them, joined by the
  separator, where each text and the separator is taken as it is when it is marked safe
  and has every character replaced by its entity when it is an ordinary string.
\<close>

theorem render_joins_conditionally_escaped_items:
  assumes "qs_exists val"
    and "(case filter' of Some f \<Rightarrow> f | None \<Rightarrow> filter_method) val = Inr records"
    and "\<forall>r\<in>set records.
           (case transform' of Some f \<Rightarrow> f | None \<Rightarrow> transform force_text) r = Inr (t r)"
  shows "render force_text (init transform' filter' sep as kw) val =
           Inr (SafeText
             (join_chars
                (if has_html sep then chars sep else concat (map html_entity (chars sep)))
                (map (\<lambda>r. if has_html (t r) then chars (t r)
                           else concat (map html_entity (chars (t r)))) records)))"
proof -
  let ?self = "init transform' filter' sep as kw"
  have piece: "chars (conditional_escape x) =
                 (if has_html x then chars x else concat (map html_entity (chars x)))" for x
    by (simp add: conditional_escape_has_html conditional_escape_ordinary)
  have f: "self_filter ?self val = Inr records"
    using assms(2) by (simp add: self_filter_def init_def)
  have "\<forall>r\<in>set records. self_transform force_text ?self r = Inr (t r)"
    using assms(3) by (simp add: self_transform_def init_def)
  then have "map_raising (self_transform force_text ?self) records = Inr (map t records)"
    by (rule map_raising_all_return)
  from render_unfold [OF assms(1) f this]
  have "render force_text ?self val =
          Inr (SafeText (join_chars (chars (conditional_escape sep))
                           (map (\<lambda>r. chars (conditional_escape (t r))) records)))"
    by (simp add: comp_def init_def)
  then show ?thesis by (simp only: piece)
qed

theorem render_joins_conditionally_escaped_items_witness:
  "qs_exists (Manager [''A'', ''B'']) \<and>
   (Inr \<circ> rev \<circ> qs_all) (Manager [''A'', ''B''])
     = (Inr [''B'', ''A''] :: unit pyexception + string list) \<and>
   render (Inr \<circ> Str)
     (init (Some (\<lambda>r. Inr (Str (''<'' @ r @ ''>'')))) (Some (Inr \<circ> rev \<circ> qs_all))
        (Str '' & '') [] Map.empty :: (string, unit) column)
     (Manager [''A'', ''B'']) = Inr (SafeText ''&lt;B&gt; &amp; &lt;A&gt;'')"
proof -
  let ?tr = "\<lambda>r. Inr (Str (''<'' @ r @ ''>'')) :: unit pyexception + pytext"
  let ?fl = "Inr \<circ> rev \<circ> qs_all :: string manager \<Rightarrow> unit pyexception + string list"
  let ?val = "Manager [''A'', ''B'']"
  have h1: "qs_exists ?val" by (simp add: qs_exists_def)
  have h2: "(case Some ?fl of Some f \<Rightarrow> f | None \<Rightarrow> filter_method) ?val = Inr [''B'', ''A'']"
    by simp
  have h3: "\<forall>r\<in>set [''B'', ''A''].
              (case Some ?tr of Some f \<Rightarrow> f | None \<Rightarrow> transform (Inr \<circ> Str)) r
                = Inr (Str (''<'' @ r @ ''>''))"
    by simp
  from render_joins_conditionally_escaped_items
    [where filter' = "Some ?fl" and transform' = "Some ?tr" and force_text = "Inr \<circ> Str"
       and t = "\<lambda>r. Str (''<'' @ r @ ''>'')" and sep = "Str '' & ''" and as = "[]"
       and kw = Map.empty, OF h1 h2 h3] h1
  show ?thesis by (simp add: html_entity_def)
qed

subsection \<open>Exceptions of the transform\<close>

text \<open>
  C7, as stated, fails for one exception: a \<^verbatim>\<open>StopIteration\<close> that the transform raises
  ends the lazy \<^verbatim>\<open>map\<close>, and \<open>render\<close> returns the cell of the records before it. Here
  the transform looks a name up and raises \<^verbatim>\<open>StopIteration\<close> for \<^verbatim>\<open>B\<close>, which has none.
\<close>

theorem render_stop_iteration_counterexample:
  "(case_option (Inl StopIteration) (Inr \<circ> Str) \<circ> map_of [(''A'', ''Ann''), (''C'', ''Cy'')]) ''B''
     = (Inl StopIteration :: unit pyexception + pytext) \<and>
   render (Inr \<circ> Str)
     (init (Some (case_option (Inl StopIteration) (Inr \<circ> Str)
                    \<circ> map_of [(''A'', ''Ann''), (''C'', ''Cy'')]))
        None default_separator [] Map.empty :: (string, unit) column)
     (Manager [''A'', ''B'', ''C'']) = Inr (SafeText ''Ann'')"
  by (simp add: render_def qs_exists_def init_def self_filter_def filter_method_def
      self_transform_def join_def escape_def replace_def)

text \<open>
  C7, amended. Let the accessor have records and let \<open>r\<close> be the first record among those
  the filter yields on which the transform raises, with the exception \<open>e\<close>. When \<open>e\<close> is
  not \<^verbatim>\<open>StopIteration\<close>, \<open>render\<close> ends with \<open>e\<close> and returns no text: the record is
  neither skipped nor replaced, and the texts of the records before it are lost.
\<close>

theorem render_transform_raises:
  assumes "qs_exists val"
    and "self_filter self val = Inr (pre @ r # post)"
    and "\<forall>p\<in>set pre. \<not> isl (self_transform force_text self p)"
    and "self_transform force_text self r = Inl e"
    and "e \<noteq> StopIteration"
  shows "render force_text self val = Inl e"
proof -
  let ?f = "self_transform force_text self"
  from assms(3) have "\<forall>p\<in>set pre. ?f p = Inr (projr (?f p))" by simp
  then have "map_raising ?f (pre @ r # post) = Inl e"
    using assms(4) assms(5) by (rule map_raising_first_raise)
  with assms(1) assms(2) show ?thesis by (rule render_raises)
qed

theorem render_transform_raises_witness:
  "qs_exists (Manager [''A'', ''B'', ''C'']) \<and>
   \<not> isl (self_transform (Inr \<circ> Str)
            (init (Some (\<lambda>r. if r = ''B'' then Inl (Raised ''boom'') else Inr (Str r))) None
               default_separator [] Map.empty) ''A'') \<and>
   self_transform (Inr \<circ> Str)
     (init (Some (\<lambda>r. if r = ''B'' then Inl (Raised ''boom'') else Inr (Str r))) None
        default_separator [] Map.empty) ''B'' = Inl (Raised ''boom'') \<and>
   Raised ''boom'' \<noteq> StopIteration \<and>
   render (Inr \<circ> Str)
     (init (Some (\<lambda>r. if r = ''B'' then Inl (Raised ''boom'') else Inr (Str r))) None
        default_separator [] Map.empty)
     (Manager [''A'', ''B'', ''C'']) = Inl (Raised ''boom'')"
proof -
  let ?col = "init (Some (\<lambda>r. if r = ''B'' then Inl (Raised ''boom'') else Inr (Str r))) None
                default_separator [] Map.empty :: (string, string) column"
  let ?val = "Manager [''A'', ''B'', ''C'']"
  have h1: "qs_exists ?val" by (simp add: qs_exists_def)
  have h2: "self_filter ?col ?val = Inr ([''A''] @ ''B'' # [''C''])"
    by (simp add: self_filter_def init_def filter_method_def)
  have h3: "\<forall>p\<in>set [''A'']. \<not> isl (self_transform (Inr \<circ> Str) ?col p)"
    by (simp add: self_transform_def init_def)
  have h4: "self_transform (Inr \<circ> Str) ?col ''B'' = Inl (Raised ''boom'')"
    by (simp add: self_transform_def init_def)
  have h5: "Raised ''boom'' \<noteq> (StopIteration :: string pyexception)" by simp
  from render_transform_raises [OF h1 h2 h3 h4 h5] h1 h3 h4 show ?thesis by simp
qed

subsection \<open>The filter\<close>

text \<open>
  C8. Put another filter into a column, one that yields records among those the
  present filter yields, in any order and number. Both cells are the join, by the same
  escaped separator, of the same escaped transformed text per record: the one over the
  records of the present filter, the other over those of the new filter. The filter
  decides which records appear and in which order, and nothing else.
\<close>

theorem render_filter_changes_selection_only:
  assumes "qs_exists val"
    and "self_filter self val = Inr records"
    and "filter' val = Inr records'"
    and "set records' \<subseteq> set records"
    and "\<forall>r\<in>set records. self_transform force_text self r = Inr (t r)"
  shows "render force_text self val =
           Inr (SafeText (join_chars (chars (conditional_escape (separator self)))
                            (map (\<lambda>r. chars (conditional_escape (t r))) records))) \<and>
         render force_text (self\<lparr>filter_attr := Some filter'\<rparr>) val =
           Inr (SafeText (join_chars (chars (conditional_escape (separator self)))
                            (map (\<lambda>r. chars (conditional_escape (t r))) records')))"
proof
  let ?self' = "self\<lparr>filter_attr := Some filter'\<rparr>"
  from assms(5) have "map_raising (self_transform force_text self) records = Inr (map t records)"
    by (rule map_raising_all_return)
  from render_unfold [OF assms(1) assms(2) this]
  show "render force_text self val =
           Inr (SafeText (join_chars (chars (conditional_escape (separator self)))
                            (map (\<lambda>r. chars (conditional_escape (t r))) records)))"
    by (simp add: comp_def)
  have f: "self_filter ?self' val = Inr records'"
    using assms(3) by (simp add: self_filter_def)
  have tr: "self_transform force_text ?self' = self_transform force_text self"
    by (simp add: self_transform_def)
  from assms(4) assms(5) have "\<forall>r\<in>set records'. self_transform force_text self r = Inr (t r)"
    by blast
  then have "map_raising (self_transform force_text ?self') records' = Inr (map t records')"
    unfolding tr by (rule map_raising_all_return)
  from render_unfold [OF assms(1) f this]
  show "render force_text ?self' val =
           Inr (SafeText (join_chars (chars (conditional_escape (separator self)))
                            (map (\<lambda>r. chars (conditional_escape (t r))) records')))"
    by (simp add: comp_def)
qed

theorem render_filter_changes_selection_only_witness:
  "qs_exists (Manager [''A'', ''B'', ''C'']) \<and>
   self_filter (init None None default_separator [] Map.empty :: (string, unit) column)
     (Manager [''A'', ''B'', ''C'']) = Inr [''A'', ''B'', ''C''] \<and>
   (Inr \<circ> take 2 \<circ> rev \<circ> qs_all) (Manager [''A'', ''B'', ''C''])
     = (Inr [''C'', ''B''] :: unit pyexception + string list) \<and>
   set [''C'', ''B''] \<subseteq> set [''A'', ''B'', ''C''] \<and>
   render (Inr \<circ> Str) (init None None default_separator [] Map.empty :: (string, unit) column)
     (Manager [''A'', ''B'', ''C'']) = Inr (SafeText ''A, B, C'') \<and>
   render (Inr \<circ> Str)
     ((init None None default_separator [] Map.empty :: (string, unit) column)
        \<lparr>filter_attr := Some (Inr \<circ> take 2 \<circ> rev \<circ> qs_all)\<rparr>)
     (Manager [''A'', ''B'', ''C'']) = Inr (SafeText ''C, B'')"
proof -
  let ?col = "init None None default_separator [] Map.empty :: (string, unit) column"
  let ?val = "Manager [''A'', ''B'', ''C'']"
  let ?f = "Inr \<circ> take 2 \<circ> rev \<circ> qs_all :: string manager \<Rightarrow> unit pyexception + string list"
  have h1: "qs_exists ?val" by (simp add: qs_exists_def)
  have h2: "self_filter ?col ?val = Inr [''A'', ''B'', ''C'']"
    by (simp add: self_filter_def init_def filter_method_def)
  have h3: "?f ?val = Inr [''C'', ''B'']" by simp
  have h4: "set [''C'', ''B''] \<subseteq> set [''A'', ''B'', ''C'']" by simp
  have h5: "\<forall>r\<in>set [''A'', ''B'', ''C'']. self_transform (Inr \<circ> Str) ?col r = Inr (Str r)"
    by (simp add: self_transform_def init_def transform_def)
  have sep: "separator ?col = Str '', ''" by (simp add: init_def default_separator_def)
  from render_filter_changes_selection_only [where filter' = ?f and t = Str, OF h1 h2 h3 h4 h5]
    h1 h2 h3 show ?thesis
    by (simp add: sep escape_def replace_def)
qed

text \<open>
  C9. Only the emptiness test of the accessor leads to the placeholder, and it comes
  before the filter. When the accessor has records and the filter yields none, the
  result is the empty \<^verbatim>\<open>SafeText\<close>; when the accessor has no records the result is
  \<^verbatim>\<open>"-"\<close> whatever the filter would do.
\<close>

theorem render_empty_filter_result:
  "(qs_exists val \<longrightarrow> self_filter self val = Inr [] \<longrightarrow>
      render force_text self val = Inr (SafeText [])) \<and>
   (\<not> qs_exists val \<longrightarrow> render force_text self val = Inr (Str ''-''))"
  by (simp add: render_def join_def)

theorem render_empty_filter_result_witness:
  "qs_exists (Manager [''A'']) \<and>
   self_filter (init None (Some (Inr \<circ> filter (\<lambda>r. False) \<circ> qs_all)) default_separator []
                  Map.empty :: (string, unit) column) (Manager [''A'']) = Inr [] \<and>
   render (Inr \<circ> Str)
     (init None (Some (Inr \<circ> filter (\<lambda>r. False) \<circ> qs_all)) default_separator []
        Map.empty :: (string, unit) column) (Manager [''A'']) = Inr (SafeText []) \<and>
   \<not> qs_exists (Manager ([] :: string list)) \<and>
   render (Inr \<circ> Str)
     (init None (Some (Inr \<circ> filter (\<lambda>r. False) \<circ> qs_all)) default_separator []
        Map.empty :: (string, unit) column) (Manager []) = Inr (Str ''-'')"
proof -
  let ?col = "init None (Some (Inr \<circ> filter (\<lambda>r. False) \<circ> qs_all)) default_separator []
                Map.empty :: (string, unit) column"
  have h1: "qs_exists (Manager [''A''])" by (simp add: qs_exists_def)
  have h2: "self_filter ?col (Manager [''A'']) = Inr []"
    by (simp add: self_filter_def init_def)
  have h3: "\<not> qs_exists (Manager ([] :: string list))" by (simp add: qs_exists_def)
  from render_empty_filter_result [of "Manager [''A'']" ?col "Inr \<circ> Str"]
    render_empty_filter_result [of "Manager []" ?col "Inr \<circ> Str"] h1 h2 h3
  show ?thesis by simp
qed

subsection \<open>Escaping\<close>

text \<open>
  C3, as stated, fails: a transform whose result is marked safe and a separator that is
  marked safe are joined as they are, markup included.
\<close>

theorem render_markup_counterexample:
  "render (Inr \<circ> Str)
     (init (Some (Inr \<circ> SafeText)) None (SafeText ''<br>'') [] Map.empty :: (string, unit) column)
     (Manager [''<b>A</b>'', ''B'']) = Inr (SafeText ''<b>A</b><br>B'')"
  by (simp add: render_def qs_exists_def init_def self_filter_def filter_method_def
      self_transform_def join_def)

text \<open>
  C3, amended. The text of the transform for each record and the separator all go
  through \<open>conditional_escape\<close> before they are joined. Text that is marked safe comes
  out of it unchanged. In ordinary text every character is replaced by its entity, so
  that a cell made of ordinary texts and an ordinary separator holds none of the
  characters \<^verbatim>\<open><\<close>, \<^verbatim>\<open>>\<close>, the double quote and the apostrophe.
\<close>

theorem render_escapes_ordinary_text:
  assumes "qs_exists val"
    and "self_filter self val = Inr records"
    and "\<forall>r\<in>set records. self_transform force_text self r = Inr (t r)"
  shows "\<exists>out.
           render force_text self val = Inr (SafeText out) \<and>
           out = join_chars (chars (conditional_escape (separator self)))
                   (map (\<lambda>r. chars (conditional_escape (t r))) records) \<and>
           (\<forall>x. has_html x \<longrightarrow> conditional_escape x = x) \<and>
           (\<forall>x. \<not> has_html x \<longrightarrow>
                  chars (conditional_escape x) = concat (map html_entity (chars x))) \<and>
           (\<not> has_html (separator self) \<and> (\<forall>r\<in>set records. \<not> has_html (t r)) \<longrightarrow>
              set out \<inter> {CHR ''<'', CHR ''>'', CHR 0x22, CHR 0x27} = {})"
proof -
  define M where "M = {CHR ''<'', CHR ''>'', CHR 0x22, CHR 0x27}"
  let ?sep = "chars (conditional_escape (separator self))"
  let ?items = "map (\<lambda>r. chars (conditional_escape (t r))) records"
  from assms(3) have "map_raising (self_transform force_text self) records = Inr (map t records)"
    by (rule map_raising_all_return)
  from render_unfold [OF assms(1) assms(2) this]
  have r: "render force_text self val = Inr (SafeText (join_chars ?sep ?items))"
    by (simp add: comp_def)
  have cm: "set (chars (conditional_escape x)) \<inter> M = {}" if "\<not> has_html x" for x
    using that unfolding M_def by (rule conditional_escape_no_markup)
  have clean: "set (join_chars ?sep ?items) \<inter> M = {}"
    if plain: "\<not> has_html (separator self) \<and> (\<forall>r\<in>set records. \<not> has_html (t r))"
  proof (rule join_chars_avoids)
    from plain have "\<not> has_html (separator self)" by (rule conjunct1)
    then show "set ?sep \<inter> M = {}" by (rule cm)
    from plain cm show "\<forall>x\<in>set ?items. set x \<inter> M = {}" by auto
  qed
  show ?thesis
  proof (intro exI [of _ "join_chars ?sep ?items"] conjI allI impI)
    show "render force_text self val = Inr (SafeText (join_chars ?sep ?items))" by (rule r)
    show "join_chars ?sep ?items = join_chars ?sep ?items" by (rule refl)
    show "conditional_escape x = x" if "has_html x" for x
      using that by (rule conditional_escape_has_html)
    show "chars (conditional_escape x) = concat (map html_entity (chars x))"
      if "\<not> has_html x" for x
      using that by (rule conditional_escape_ordinary)
    show "set (join_chars ?sep ?items) \<inter> {CHR ''<'', CHR ''>'', CHR 0x22, CHR 0x27} = {}"
      if "\<not> has_html (separator self) \<and> (\<forall>r\<in>set records. \<not> has_html (t r))"
      using clean [OF that] unfolding M_def .
  qed
qed

theorem render_escapes_ordinary_text_witness:
  "qs_exists (Manager [''<script>'', ''a&b'']) \<and>
   self_filter (init None None (Str ''<|>'') [] Map.empty :: (string, unit) column)
     (Manager [''<script>'', ''a&b'']) = Inr [''<script>'', ''a&b''] \<and>
   \<not> has_html (separator (init None None (Str ''<|>'') [] Map.empty :: (string, unit) column)) \<and>
   \<not> has_html (Str ''<script>'') \<and> \<not> has_html (Str ''a&b'') \<and>
   render (Inr \<circ> Str) (init None None (Str ''<|>'') [] Map.empty :: (string, unit) column)
     (Manager [''<script>'', ''a&b'']) = Inr (SafeText ''&lt;script&gt;&lt;|&gt;a&amp;b'') \<and>
   set ''&lt;script&gt;&lt;|&gt;a&amp;b'' \<inter> {CHR ''<'', CHR ''>'', CHR 0x22, CHR 0x27} = {}"
proof -
  let ?col = "init None None (Str ''<|>'') [] Map.empty :: (string, unit) column"
  let ?val = "Manager [''<script>'', ''a&b'']"
  have h1: "qs_exists ?val" by (simp add: qs_exists_def)
  have h2: "self_filter ?col ?val = Inr [''<script>'', ''a&b'']"
    by (simp add: self_filter_def init_def filter_method_def)
  have h3: "\<forall>r\<in>set [''<script>'', ''a&b'']. self_transform (Inr \<circ> Str) ?col r = Inr (Str r)"
    by (simp add: self_transform_def init_def transform_def)
  have sep: "separator ?col = Str ''<|>''" by (simp add: init_def)
  from render_escapes_ordinary_text [OF h1 h2 h3] obtain out where
    r: "render (Inr \<circ> Str) ?col ?val = Inr (SafeText out)"
    and out: "out = join_chars (chars (conditional_escape (separator ?col)))
                      (map (\<lambda>r. chars (conditional_escape (Str r))) [''<script>'', ''a&b''])"
    and clean: "\<not> has_html (separator ?col) \<and>
                  (\<forall>r\<in>set [''<script>'', ''a&b'']. \<not> has_html (Str r)) \<longrightarrow>
                set out \<inter> {CHR ''<'', CHR ''>'', CHR 0x22, CHR 0x27} = {}"
    by blast
  from out have out': "out = ''&lt;script&gt;&lt;|&gt;a&amp;b''"
    by (simp add: sep escape_def replace_def)
  from clean have "set out \<inter> {CHR ''<'', CHR ''>'', CHR 0x22, CHR 0x27} = {}"
    by (simp add: sep)
  with r h1 h2 show ?thesis
    unfolding out' by (simp add: sep)
qed

subsection \<open>Construction\<close>

text \<open>
  C4. A column constructed without the keyword option \<^verbatim>\<open>orderable\<close> has
  \<^verbatim>\<open>orderable\<close> false; constructed with it, whatever its value, the column keeps
  that value.
\<close>

theorem init_orderable:
  "(kw ''orderable'' = None \<longrightarrow>
      orderable (init transform' filter' sep as kw) = Some (PyBool False)) \<and>
   (\<forall>v. kw ''orderable'' = Some v \<longrightarrow>
      orderable (init transform' filter' sep as kw) = Some v)"
  by (simp add: orderable_def init_def setdefault_def)

theorem init_orderable_witness:
  "(Map.empty :: string \<rightharpoonup> pyval) ''orderable'' = None \<and>
   orderable (init None None default_separator [] Map.empty :: (string, unit) column)
     = Some (PyBool False) \<and>
   [''orderable'' \<mapsto> PyBool True] ''orderable'' = Some (PyBool True) \<and>
   orderable (init None None default_separator [] [''orderable'' \<mapsto> PyBool True]
                :: (string, unit) column) = Some (PyBool True) \<and>
   [''orderable'' \<mapsto> PyNone] ''orderable'' = Some PyNone \<and>
   orderable (init None None default_separator [] [''orderable'' \<mapsto> PyNone]
                :: (string, unit) column) = Some PyNone"
  using init_orderable [of "Map.empty" "None :: (string \<Rightarrow> unit pyexception + pytext) option" None
      default_separator "[]"]
    init_orderable [of "[''orderable'' \<mapsto> PyBool True]"
      "None :: (string \<Rightarrow> unit pyexception + pytext) option" None default_separator "[]"]
    init_orderable [of "[''orderable'' \<mapsto> PyNone]"
      "None :: (string \<Rightarrow> unit pyexception + pytext) option" None default_separator "[]"]
  by simp

text \<open>
  C6. A column constructed without a transform has no transform attribute of its own,
  so that \<^verbatim>\<open>self.transform\<close> is the method of the class, which returns
  \<^verbatim>\<open>force_text\<close> of the record and does nothing else.
\<close>

theorem default_transform_force_text:
  "transform_attr (init None filter' sep as kw) = None \<and>
   self_transform force_text (init None filter' sep as kw) obj = force_text obj \<and>
   transform force_text obj = force_text obj"
  by (simp add: self_transform_def init_def transform_def)

subsection \<open>Field detection\<close>

text \<open>
  C5, as stated, fails for a many-to-many field whose label has no character:
  \<^verbatim>\<open>ucfirst\<close> raises \<^verbatim>\<open>IndexError\<close> and \<open>from_field\<close> returns no column. The
  upper-casing is not called; it is here the one that changes nothing.
\<close>

theorem from_field_empty_label_counterexample:
  "(from_field (replicate 1) (ManyToManyField [])
      :: unit pyexception + (string, unit) column option) = Inl IndexError"
  by (simp add: from_field_def)

text \<open>
  C5, amended. For a many-to-many field whose label has a first character,
  \<open>from_field\<close> returns a column whose verbose name is the label with its first
  character upper-cased, the rest of the label kept; for any field that is not
  many-to-many it returns \<^verbatim>\<open>None\<close>.
\<close>

theorem from_field_many_to_many:
  "(is_ManyToManyField d \<and> field_verbose_name d = c # cs \<longrightarrow>
      (\<exists>col. (from_field upper d :: 'e pyexception + ('r, 'e) column option) = Inr (Some col) \<and>
             verbose_name col = Some (PyStr (upper c @ cs)))) \<and>
   (\<not> is_ManyToManyField d \<longrightarrow>
      (from_field upper d :: 'e pyexception + ('r, 'e) column option) = Inr None)"
  by (cases d) (simp_all add: from_field_def verbose_name_def init_def setdefault_def)

theorem from_field_many_to_many_witness:
  "is_ManyToManyField (ManyToManyField (map of_char ''friends'')) \<and>
   field_verbose_name (ManyToManyField (map of_char ''friends''))
     = of_char CHR ''f'' # map of_char ''riends'' \<and>
   (\<exists>col. (from_field
              (\<lambda>c. if 97 \<le> c \<and> c \<le> 122 \<or> 224 \<le> c \<and> c \<le> 254 \<and> c \<noteq> 247
                    then [c - 32] else [c])
              (ManyToManyField (map of_char ''friends''))
             :: unit pyexception + (string, unit) column option) = Inr (Some col) \<and>
          verbose_name col = Some (PyStr (map of_char ''Friends''))) \<and>
   is_ManyToManyField (ManyToManyField (233 # map of_char ''cole'')) \<and>
   (\<exists>col. (from_field
              (\<lambda>c. if 97 \<le> c \<and> c \<le> 122 \<or> 224 \<le> c \<and> c \<le> 254 \<and> c \<noteq> 247
                    then [c - 32] else [c])
              (ManyToManyField (233 # map of_char ''cole''))
             :: unit pyexception + (string, unit) column option) = Inr (Some col) \<and>
          verbose_name col = Some (PyStr (201 # map of_char ''cole''))) \<and>
   \<not> is_ManyToManyField (OtherField (map of_char ''name'')) \<and>
   (from_field
      (\<lambda>c. if 97 \<le> c \<and> c \<le> 122 \<or> 224 \<le> c \<and> c \<le> 254 \<and> c \<noteq> 247
            then [c - 32] else [c])
      (OtherField (map of_char ''name''))
      :: unit pyexception + (string, unit) column option) = Inr None"
proof -
  let ?up = "\<lambda>c::nat. if 97 \<le> c \<and> c \<le> 122 \<or> 224 \<le> c \<and> c \<le> 254 \<and> c \<noteq> 247
                       then [c - 32] else [c]"
  from from_field_many_to_many
      [of "ManyToManyField (map of_char ''friends'')" "of_char CHR ''f''" "map of_char ''riends''"
          ?up, where ?'r = string and ?'e = unit]
    from_field_many_to_many
      [of "ManyToManyField (233 # map of_char ''cole'')" 233 "map of_char ''cole''"
          ?up, where ?'r = string and ?'e = unit]
    from_field_many_to_many
      [of "OtherField (map of_char ''name'')" _ _ ?up, where ?'r = string and ?'e = unit]
  show ?thesis by simp
qed

text \<open>
  C10. The column that \<open>from_field\<close> returns for a many-to-many field is constructed
  with the verbose name as its only option: no positional arguments, \<^verbatim>\<open>orderable\<close>
  false by default, the separator \<^verbatim>\<open>", "\<close>, and the transform and the filter of
  the class.
\<close>

theorem from_field_defaults:
  assumes "is_ManyToManyField d"
    and "from_field upper d = Inr (Some (col :: ('r, 'e) column))"
  shows "args col = [] \<and>
         (\<exists>name. (ucfirst upper (field_verbose_name d) :: 'e pyexception + unicode) = Inr name \<and>
            kwargs col = [''verbose_name'' \<mapsto> PyStr name, ''orderable'' \<mapsto> PyBool False]) \<and>
         orderable col = Some (PyBool False) \<and>
         separator col = Str '', '' \<and>
         transform_attr col = None \<and> filter_attr col = None \<and>
         self_transform force_text col = transform force_text \<and>
         self_filter col = filter_method"
proof -
  obtain label where d: "d = ManyToManyField label"
    using assms(1) by (cases d) simp_all
  from assms(2) obtain name where
    name: "(ucfirst upper label :: 'e pyexception + unicode) = Inr name"
    and col: "col = init None None default_separator [] [''verbose_name'' \<mapsto> PyStr name]"
    unfolding d by (auto simp add: from_field_def split: sum.splits)
  show ?thesis
    unfolding col d using name
    by (simp add: init_def setdefault_def orderable_def default_separator_def
        self_transform_def self_filter_def)
qed

theorem from_field_defaults_witness:
  "is_ManyToManyField (ManyToManyField (map of_char ''friends'')) \<and>
   (\<exists>col :: (string, unit) column.
      from_field (\<lambda>c. if 97 \<le> c \<and> c \<le> 122 then [c - 32] else [c])
        (ManyToManyField (map of_char ''friends'')) = Inr (Some col) \<and>
      args col = [] \<and>
      kwargs col = [''verbose_name'' \<mapsto> PyStr (map of_char ''Friends''),
                    ''orderable'' \<mapsto> PyBool False] \<and>
      orderable col = Some (PyBool False) \<and>
      separator col = Str '', '' \<and>
      transform_attr col = None \<and> filter_attr col = None \<and>
      self_transform (Inr \<circ> Str) col ''Ann'' = Inr (Str ''Ann'') \<and>
      self_filter col (Manager [''Ann'']) = Inr [''Ann''])"
proof -
  let ?d = "ManyToManyField (map of_char ''friends'')"
  let ?up = "\<lambda>c::nat. if 97 \<le> c \<and> c \<le> 122 then [c - 32] else [c]"
  have h1: "is_ManyToManyField ?d" by simp
  obtain col :: "(string, unit) column" where h2: "from_field ?up ?d = Inr (Some col)"
    by (simp add: from_field_def)
  from from_field_defaults [OF h1 h2, of "Inr \<circ> Str"] h1 h2 show ?thesis
    by (auto simp add: transform_def filter_method_def)
qed

end
